theory Spec2Isabelle
  imports Complex_Main "HOL-Library.Sublist" "HOL-Library.Multiset"
begin

section \<open>The data model of \<^verbatim>\<open>digital_economy_app.py\<close>\<close>

text \<open>
  The application reads one CSV table into a pandas DataFrame and answers every query
  from it. A DataFrame is modelled as the list of its rows in file order (pandas keeps
  that order through boolean indexing). One row carries the columns the data logic reads:
  the stock code (read with \<^verbatim>\<open>dtype=str\<close>), the company name (which may be missing: the
  source passes \<^verbatim>\<open>na=False\<close> for it), the year, the transformation index and the total
  keyword frequency. The five per-technology frequency columns are only handed to the
  charts and are left out. The source names the columns in Chinese; the fields below
  carry their English meaning. The stock code and the numeric cells other than the year
  are taken as present: missing values in those columns are not part of the model. The
  index is carried as the rational number it stands for. The one place where the
  rounding of doubles decides an integer that is shown, the bucket of line 188, is
  computed in doubles.

  The year column changes its type while loading, so the row type is polymorphic in it.
\<close>

record 'y row =
  stock_code :: string
  company_name :: "string option"
  year :: 'y
  index_score :: rat
  total_freq :: int

text \<open>
  A year cell of the file either reads as a number or does not (arbitrary text, the
  empty cell, \<^verbatim>\<open>nan\<close>). The number is the value \<^verbatim>\<open>pd.to_numeric\<close> gives for the cell, a
  64-bit integer or a double, finite or infinite.
\<close>

datatype numeric = Finite rat | Infinite

datatype cell = Parses numeric | Unparsed string

type_synonym raw_row = "cell row"
type_synonym dataset = "int row list"

text \<open>
  What \<^verbatim>\<open>os.path.exists\<close> and \<^verbatim>\<open>pd.read_csv\<close> find at \<^verbatim>\<open>CSV_PATH\<close>: no file, a file
  that makes the \<^verbatim>\<open>try\<close> block raise with some text (bad encoding, a missing or
  non-numeric column), or a table of rows.
\<close>

datatype csv_file = Missing | Malformed string | Csv "raw_row list"

datatype failure = ReadFailure string | IntCastingNaNError

text \<open>The messages the program shows with \<^verbatim>\<open>st.error\<close>, \<^verbatim>\<open>st.warning\<close> and \<^verbatim>\<open>st.info\<close>.\<close>

datatype message =
    LoadFailed failure
  | CannotFindDataFile
  | NoDataInYears int int
  | NoCompanyFound
  | PleaseEnterQuery

record market_avg_row =
  avg_year :: int
  avg_index :: rat
  avg_freq :: rat

section \<open>\<^verbatim>\<open>load_data\<close>\<close>

definition set_year :: "'a row \<Rightarrow> 'b \<Rightarrow> 'b row" where
  "set_year r y =
     \<lparr>stock_code = stock_code r, company_name = company_name r, year = y,
      index_score = index_score r, total_freq = total_freq r\<rparr>"

text \<open>\<^verbatim>\<open>pd.to_numeric(..., errors='coerce')\<close>: what does not parse becomes NaN, here \<open>None\<close>.\<close>

fun to_numeric :: "cell \<Rightarrow> numeric option" where
  "to_numeric (Parses v) = Some v"
| "to_numeric (Unparsed s) = None"

text \<open>\<^verbatim>\<open>int(x)\<close> on a finite value truncates toward zero.\<close>

definition trunc :: "rat \<Rightarrow> int" where
  "trunc x = (if 0 \<le> x then \<lfloor>x\<rfloor> else \<lceil>x\<rceil>)"

text \<open>
  \<^verbatim>\<open>astype(int)\<close> converts the column to 64-bit integers. It raises on NaN and on an
  infinite value. A finite value is truncated toward zero when the result fits in 64
  bits. For a finite value that does not fit, numpy leaves the result to the processor's
  conversion; the model takes the most negative 64-bit integer, as x86-64 gives, and
  nothing is proved of such a year except that it is a 64-bit integer.
\<close>

definition int64_cast :: "rat \<Rightarrow> int" where
  "int64_cast q =
     (if - (2 ^ 63) \<le> trunc q \<and> trunc q < 2 ^ 63 then trunc q else - (2 ^ 63))"

fun astype_int :: "numeric option row list \<Rightarrow> failure + dataset" where
  "astype_int [] = Inr []"
| "astype_int (r # rs) =
     (case year r of
        Some (Finite q) \<Rightarrow>
          (case astype_int rs of
             Inl e \<Rightarrow> Inl e
           | Inr df \<Rightarrow> Inr (set_year r (int64_cast q) # df))
      | _ \<Rightarrow> Inl IntCastingNaNError)"

definition dropna :: "numeric option row list \<Rightarrow> numeric option row list" where
  "dropna rs = filter (\<lambda>r. year r \<noteq> None) rs"

definition mean :: "rat list \<Rightarrow> rat" where
  "mean xs = sum_list xs / of_nat (length xs)"

text \<open>
  \<^verbatim>\<open>df.groupby('year')[[index, total]].mean().reset_index()\<close>: one row per distinct year,
  the group keys in ascending order.
\<close>

definition market_avg :: "dataset \<Rightarrow> market_avg_row list" where
  "market_avg df =
     map (\<lambda>y. \<lparr>avg_year = y,
               avg_index = mean (map index_score (filter (\<lambda>r. year r = y) df)),
               avg_freq = mean (map (\<lambda>r. of_int (total_freq r)) (filter (\<lambda>r. year r = y) df))\<rparr>)
         (sort (remdups (map year df)))"

text \<open>
  The function returns the pair \<^verbatim>\<open>(df, market_avg)\<close> or \<^verbatim>\<open>(None, None)\<close>; the second
  component of the model's result is what it shows with \<^verbatim>\<open>st.error\<close> on the way.
\<close>

type_synonym loaded = "(dataset option \<times> market_avg_row list option) \<times> message list"

fun load_data :: "csv_file \<Rightarrow> loaded" where
  "load_data Missing = ((None, None), [])"
| "load_data (Malformed e) = ((None, None), [LoadFailed (ReadFailure e)])"
| "load_data (Csv rows) =
     (case astype_int (dropna (map (\<lambda>r. set_year r (to_numeric (year r))) rows)) of
        Inl e \<Rightarrow> ((None, None), [LoadFailed e])
      | Inr df \<Rightarrow> ((Some df, Some (market_avg df)), []))"

text \<open>
  \<^verbatim>\<open>@st.cache_data\<close> on a function without arguments: the first call runs the function
  and stores what it returned (together with the elements it showed, which are replayed);
  every later call returns the stored result without running the body. The store lives
  as long as the server process and is threaded through explicitly here.
\<close>

type_synonym cache = "loaded option"

definition cached_load_data :: "cache \<Rightarrow> csv_file \<Rightarrow> loaded \<times> cache" where
  "cached_load_data c f =
     (case c of
        Some r \<Rightarrow> (r, c)
      | None \<Rightarrow> (let r = load_data f in (r, Some r)))"

section \<open>\<^verbatim>\<open>main\<close>: resolving a company\<close>

datatype search_mode = ByName | ByCode

text \<open>The exceptions that can leave \<^verbatim>\<open>main\<close>.\<close>

datatype py_error = ReError | ValueError | OverflowError

text \<open>
  \<^verbatim>\<open>Series.str.contains(query, na=False)\<close> is a function of the pandas library. With its
  default \<^verbatim>\<open>regex=True\<close> it compiles the query as a regular expression, which raises
  \<^verbatim>\<open>re.error\<close> on an ill-formed pattern, and then searches each name for it. The resolver
  takes it as a parameter: applied to the query it fails or gives the test on names.
\<close>

type_synonym str_contains = "string \<Rightarrow> (string \<Rightarrow> bool) option"

definition find_matches ::
    "str_contains \<Rightarrow> dataset \<Rightarrow> search_mode \<Rightarrow> string \<Rightarrow> py_error + dataset" where
  "find_matches contains df mode query =
     (if mode = ByCode then Inr (filter (\<lambda>r. stock_code r = query) df)
      else
        let matches = filter (\<lambda>r. company_name r = Some query) df in
        if matches = [] then
          (case contains query of
             None \<Rightarrow> Inl ReError
           | Some found \<Rightarrow>
               Inr (filter (\<lambda>r. case company_name r of None \<Rightarrow> False | Some n \<Rightarrow> found n) df))
        else Inr matches)"

text \<open>
  \<^verbatim>\<open>df[df[code] == first_code].sort_values(year)\<close>. The sort is modelled as a stable one:
  rows of equal year keep the order of the table.
\<close>

definition target_company :: "dataset \<Rightarrow> string \<Rightarrow> dataset" where
  "target_company df first_code = sort_key year (filter (\<lambda>r. stock_code r = first_code) df)"

definition filter_years :: "int \<times> int \<Rightarrow> dataset \<Rightarrow> dataset" where
  "filter_years selected_years tc =
     filter (\<lambda>r. fst selected_years \<le> year r \<and> year r \<le> snd selected_years) tc"

section \<open>\<^verbatim>\<open>main\<close>: the metric cards\<close>

text \<open>
  \<^verbatim>\<open>round(x, 2)\<close>: the nearest multiple of one hundredth, an exact tie going to the even
  one.
\<close>

definition py_round2 :: "rat \<Rightarrow> rat" where
  "py_round2 x =
     (let y = x * 100; f = \<lfloor>y\<rfloor>; d = y - of_int f
      in of_int (if d < 1 / 2 then f else if 1 / 2 < d then f + 1
                 else if even f then f else f + 1) / 100)"

text \<open>
  \<^verbatim>\<open>Series.rank(ascending=False, method='min')\<close>: the values are put in descending order
  and numbered from 1; a value gets the lowest number of the group of values equal to
  it, that is the position of its first occurrence.
\<close>

definition rank_min_desc :: "rat list \<Rightarrow> rat \<Rightarrow> nat" where
  "rank_min_desc vs v = Suc (length (takeWhile (\<lambda>x. x \<noteq> v) (rev (sort vs))))"

definition rank_series :: "dataset \<Rightarrow> (int row \<times> nat) list" where
  "rank_series current_market =
     map (\<lambda>r. (r, rank_min_desc (map index_score current_market) (index_score r)))
         current_market"

record metrics =
  latest_idx :: rat
  latest_yr :: int
  idx_delta :: rat
  my_rank :: "nat option"
  total_comps :: nat

text \<open>
  Lines 169 to 181, for a filtered series that is not empty (the source returns before
  them otherwise). \<open>None\<close> in \<open>my_rank\<close> is the string \<^verbatim>\<open>"N/A"\<close>.
\<close>

definition compute_metrics :: "dataset \<Rightarrow> string \<Rightarrow> dataset \<Rightarrow> metrics" where
  "compute_metrics df code filtered_company =
     (let latest_rec = last filtered_company;
          current_market = filter (\<lambda>r. year r = year latest_rec) df;
          mine = filter (\<lambda>(r, k). stock_code r = code) (rank_series current_market)
      in \<lparr>latest_idx = index_score latest_rec,
          latest_yr = year latest_rec,
          idx_delta =
            (if 1 < length filtered_company
             then py_round2 (index_score latest_rec
                    - index_score (filtered_company ! (length filtered_company - 2)))
             else 0),
          my_rank = (case mine of [] \<Rightarrow> None | (r, k) # _ \<Rightarrow> Some k),
          total_comps = length current_market\<rparr>)"

subsection \<open>Binary floating point\<close>

text \<open>
  The arithmetic of line 188 is done in doubles, and the integer shown depends on their
  rounding. A double is modelled by the rational it stands for, and an operation by the
  exact operation followed by rounding to the nearest double. The values rounded here
  lie between \<open>2\<^sup>-\<^sup>5\<^sup>3\<close> and 100, so the limits of the exponent play no part and are left
  out.
\<close>

text \<open>The number of binary digits of \<open>n\<close>.\<close>

fun bit_length :: "nat \<Rightarrow> nat" where
  "bit_length n = (if n = 0 then 0 else Suc (bit_length (n div 2)))"

declare bit_length.simps [simp del]

text \<open>For a positive \<open>x\<close>, the \<open>e\<close> with \<open>2 ^ e \<le> x < 2 ^ (e + 1)\<close>.\<close>

definition exponent :: "rat \<Rightarrow> int" where
  "exponent x =
     (if 1 \<le> x then int (bit_length (nat \<lfloor>x\<rfloor>)) - 1
      else - int (bit_length (nat (\<lceil>1 / x\<rceil> - 1))))"

definition two_pow :: "int \<Rightarrow> rat" where
  "two_pow k = (if 0 \<le> k then 2 ^ nat k else 1 / 2 ^ nat (- k))"

definition round_half_even :: "rat \<Rightarrow> int" where
  "round_half_even y =
     (let f = \<lfloor>y\<rfloor>; d = y - of_int f
      in if d < 1 / 2 then f else if 1 / 2 < d then f + 1 else if even f then f else f + 1)"

text \<open>The double nearest to \<open>x\<close>: 53 significant bits, a tie going to the even one.\<close>

definition to_double :: "rat \<Rightarrow> rat" where
  "to_double x =
     (if x = 0 then 0
      else let ulp = two_pow (exponent \<bar>x\<bar> - 52)
           in of_int (round_half_even (x / ulp)) * ulp)"

text \<open>
  Line 188: the rank as \<^verbatim>\<open>int(my_rank)\<close> and the bucket as
  \<^verbatim>\<open>int(my_rank / total_comps * 100)\<close>. The rank is a double and the count an integer
  converted to one, both whole numbers far below \<open>2\<^sup>5\<^sup>3\<close> and so exact; the quotient and
  the product are each rounded. \<^verbatim>\<open>int("N/A")\<close> raises \<^verbatim>\<open>ValueError\<close>; a double divided
  by zero is infinite, on which \<^verbatim>\<open>int\<close> raises \<^verbatim>\<open>OverflowError\<close>.
\<close>

definition rank_card :: "metrics \<Rightarrow> py_error + int \<times> int" where
  "rank_card m =
     (case my_rank m of
        None \<Rightarrow> Inl ValueError
      | Some r \<Rightarrow>
          if total_comps m = 0 then Inl OverflowError
          else Inr (trunc (of_nat r),
                    trunc (to_double (to_double (of_nat r / of_nat (total_comps m)) * 100))))"

section \<open>\<^verbatim>\<open>main\<close> as a whole\<close>

text \<open>
  What one run shows. The sidebar supplies the search mode, the query and the selected
  years, which are parameters here; charts and tables are not modelled.
\<close>

datatype screen =
    Stopped "message list"
  | Overview "message list" "market_avg_row list option"
  | Dashboard "string option" string metrics int int

definition main_body ::
    "str_contains \<Rightarrow> loaded \<Rightarrow> search_mode \<Rightarrow> string \<Rightarrow> int \<times> int \<Rightarrow> py_error + screen" where
  "main_body contains ld mode query selected_years =
     (case fst (fst ld) of
        None \<Rightarrow> Inr (Stopped (snd ld @ [CannotFindDataFile]))
      | Some df \<Rightarrow>
          if query = [] then Inr (Overview (snd ld @ [PleaseEnterQuery]) (snd (fst ld)))
          else
            (case find_matches contains df mode query of
               Inl e \<Rightarrow> Inl e
             | Inr [] \<Rightarrow> Inr (Stopped (snd ld @ [NoCompanyFound]))
             | Inr (first_row # _) \<Rightarrow>
                 let first_code = stock_code first_row;
                     filtered_company = filter_years selected_years (target_company df first_code)
                 in if filtered_company = []
                    then Inr (Stopped (snd ld @
                           [NoDataInYears (fst selected_years) (snd selected_years)]))
                    else
                      let m = compute_metrics df first_code filtered_company in
                      (case rank_card m of
                         Inl e \<Rightarrow> Inl e
                       | Inr (shown_rank, top_pct) \<Rightarrow>
                           Inr (Dashboard (company_name (last filtered_company)) first_code
                                  m shown_rank top_pct))))"

definition main ::
    "str_contains \<Rightarrow> cache \<Rightarrow> csv_file \<Rightarrow> search_mode \<Rightarrow> string \<Rightarrow> int \<times> int
       \<Rightarrow> (py_error + screen) \<times> cache" where
  "main contains c f mode query selected_years =
     (let (ld, c') = cached_load_data c f
      in (main_body contains ld mode query selected_years, c'))"

section \<open>A fragment of the pattern language\<close>

text \<open>
  For evaluating the resolver on concrete queries: \<^verbatim>\<open>re.search\<close> for patterns made of
  ordinary characters and the wildcard \<^verbatim>\<open>.\<close> (any character but the newline). A pattern
  using any other special character is outside this fragment. The function answers
  \<open>None\<close> for it, which is what Python does with an ill-formed pattern such as one that
  begins with \<^verbatim>\<open>*\<close>, and which says nothing of the well-formed patterns outside the
  fragment: the evaluations below use patterns of the fragment and patterns that begin
  with \<^verbatim>\<open>*\<close> only.
\<close>

definition special_chars :: "char list" where
  "special_chars = ''.^$*+?{}[]|()'' @ [CHR 0x5C]"

fun match_here :: "string \<Rightarrow> string \<Rightarrow> bool" where
  "match_here [] s = True"
| "match_here (c # p) [] = False"
| "match_here (c # p) (x # s) =
     ((if c = CHR ''.'' then x \<noteq> CHR 0x0A else x = c) \<and> match_here p s)"

fun re_search :: "string \<Rightarrow> string \<Rightarrow> bool" where
  "re_search p [] = match_here p []"
| "re_search p (x # s) = (match_here p (x # s) \<or> re_search p s)"

definition contains_dot_fragment :: str_contains where
  "contains_dot_fragment query =
     (if list_all (\<lambda>c. c = CHR ''.'' \<or> c \<notin> set special_chars) query
      then Some (re_search query) else None)"

section \<open>Example tables\<close>

text \<open>
  The scenario of the specification: \<^verbatim>\<open>T1\<close> reports in 2020 and 2021, \<^verbatim>\<open>T2\<close> in 2021.
\<close>

definition scenario_df :: dataset where
  "scenario_df =
     [\<lparr>stock_code = ''T1'', company_name = Some ''Alpha'', year = 2020,
       index_score = 80, total_freq = 10\<rparr>,
      \<lparr>stock_code = ''T1'', company_name = Some ''Alpha'', year = 2021,
       index_score = 85, total_freq = 20\<rparr>,
      \<lparr>stock_code = ''T2'', company_name = Some ''Beta'', year = 2021,
       index_score = 90, total_freq = 30\<rparr>]"

definition scenario_rows :: "raw_row list" where
  "scenario_rows =
     [\<lparr>stock_code = ''T1'', company_name = Some ''Alpha'', year = Parses (Finite 2020),
       index_score = 80, total_freq = 10\<rparr>,
      \<lparr>stock_code = ''T1'', company_name = Some ''Alpha'', year = Parses (Finite 2021),
       index_score = 85, total_freq = 20\<rparr>,
      \<lparr>stock_code = ''T2'', company_name = Some ''Beta'', year = Parses (Finite 2021),
       index_score = 90, total_freq = 30\<rparr>]"

text \<open>
  A file with a year that does not parse, a negative year and a year with a fraction.
\<close>

definition odd_years_rows :: "raw_row list" where
  "odd_years_rows =
     [\<lparr>stock_code = ''T1'', company_name = Some ''Alpha'', year = Unparsed ''n/a'',
       index_score = 80, total_freq = 10\<rparr>,
      \<lparr>stock_code = ''T2'', company_name = Some ''Beta'', year = Parses (Finite (- 5)),
       index_score = 90, total_freq = 30\<rparr>,
      \<lparr>stock_code = ''T3'', company_name = None, year = Parses (Finite (4041 / 2)),
       index_score = 70, total_freq = 0\<rparr>]"


text \<open>Two companies whose names differ from the query \<^verbatim>\<open>a.c\<close> in the middle character.\<close>

definition names_df :: dataset where
  "names_df =
     [\<lparr>stock_code = ''T1'', company_name = Some ''abc'', year = 2020,
       index_score = 80, total_freq = 10\<rparr>,
      \<lparr>stock_code = ''T2'', company_name = Some ''xyz'', year = 2020,
       index_score = 90, total_freq = 30\<rparr>]"

text \<open>
  A table out of year order in which \<^verbatim>\<open>T1\<close> changed its name and \<^verbatim>\<open>T3\<close> bears the old
  name of \<^verbatim>\<open>T1\<close>.
\<close>

definition renamed_df :: dataset where
  "renamed_df =
     [\<lparr>stock_code = ''T2'', company_name = Some ''Beta'', year = 2021,
       index_score = 90, total_freq = 30\<rparr>,
      \<lparr>stock_code = ''T1'', company_name = Some ''Alpha New'', year = 2021,
       index_score = 85, total_freq = 20\<rparr>,
      \<lparr>stock_code = ''T1'', company_name = Some ''Alpha'', year = 2020,
       index_score = 80, total_freq = 10\<rparr>,
      \<lparr>stock_code = ''T3'', company_name = Some ''Alpha'', year = 2021,
       index_score = 70, total_freq = 5\<rparr>]"

text \<open>Three companies in one year, two of them with the same index.\<close>

definition tied_df :: dataset where
  "tied_df =
     [\<lparr>stock_code = ''T1'', company_name = Some ''Alpha'', year = 2021,
       index_score = 90, total_freq = 10\<rparr>,
      \<lparr>stock_code = ''T2'', company_name = Some ''Beta'', year = 2021,
       index_score = 80, total_freq = 30\<rparr>,
      \<lparr>stock_code = ''T3'', company_name = Some ''Gamma'', year = 2021,
       index_score = 90, total_freq = 5\<rparr>]"

text \<open>
  Fifty companies in one year with the indices 100, 99, ..., 51; the company \<^verbatim>\<open>T28\<close> has
  the index 72, the 29th highest.
\<close>

definition digits2 :: "nat \<Rightarrow> string" where
  "digits2 i = [''0123456789'' ! (i div 10), ''0123456789'' ! (i mod 10)]"

definition fifty_df :: dataset where
  "fifty_df =
     map (\<lambda>i. \<lparr>stock_code = ''T'' @ digits2 i, company_name = Some (''N'' @ digits2 i),
                year = 2021, index_score = 100 - of_nat i, total_freq = int i\<rparr>)
         [0..<50]"

section \<open>The loader\<close>

lemma year_set_year [simp]: "year (set_year r y) = y"
  by (simp add: set_year_def)

lemma trunc_pos_iff: "0 < trunc q \<longleftrightarrow> 1 \<le> q"
  unfolding trunc_def by (auto simp: floor_less_iff less_ceiling_iff le_floor_iff)

lemma int64_cast_range: "- (2 ^ 63) \<le> int64_cast q \<and> int64_cast q < 2 ^ 63"
  by (simp add: int64_cast_def)

lemma int64_cast_fits:
  "- (2 ^ 63) \<le> trunc q \<Longrightarrow> trunc q < 2 ^ 63 \<Longrightarrow> int64_cast q = trunc q"
  by (simp add: int64_cast_def)

text \<open>
  Cleaning the year column, row by row: a row whose year does not parse disappears, a
  row with a finite year stays with the converted value, and only an infinite year makes
  the conversion raise.
\<close>

lemma astype_int_dropna:
  assumes "list_all (\<lambda>r. year r \<noteq> Parses Infinite) rows"
  shows "\<exists>df. astype_int (dropna (map (\<lambda>r. set_year r (to_numeric (year r))) rows)) = Inr df \<and>
           list_all2 (\<lambda>r r'. \<exists>q. year r = Parses (Finite q) \<and> r' = set_year r (int64_cast q))
             (filter (\<lambda>r. to_numeric (year r) \<noteq> None) rows) df"
  using assms
proof (induction rows)
  case Nil
  show ?case by (simp add: dropna_def)
next
  case (Cons r rows)
  then obtain df where
    df: "astype_int (dropna (map (\<lambda>r. set_year r (to_numeric (year r))) rows)) = Inr df"
      "list_all2 (\<lambda>r r'. \<exists>q. year r = Parses (Finite q) \<and> r' = set_year r (int64_cast q))
         (filter (\<lambda>r. to_numeric (year r) \<noteq> None) rows) df"
    by auto
  show ?case
  proof (cases "year r")
    case (Parses v)
    with Cons.prems obtain q where "v = Finite q"
      by (cases v) auto
    with df Parses show ?thesis
      by (simp add: dropna_def set_year_def)
  next
    case (Unparsed s)
    with df show ?thesis
      by (simp add: dropna_def)
  qed
qed

lemma floor_rat_numeral: "\<lfloor>numeral a / numeral b :: rat\<rfloor> = numeral a div numeral b"
  using floor_divide_of_int_eq [of "numeral a" "numeral b", where ?'a = rat] by simp

text \<open>
  Claim C7, as stated, fails: the loader never looks at the sign of a year. In the file
  \<open>odd_years_rows\<close> the row of \<^verbatim>\<open>T2\<close> has the year \<open>-5\<close>; it parses, so it survives
  loading, with a year that is not positive.
\<close>

theorem positive_year_counterexample:
  "fst (fst (load_data (Csv odd_years_rows))) =
     Some [\<lparr>stock_code = ''T2'', company_name = Some ''Beta'', year = - 5,
             index_score = 90, total_freq = 30\<rparr>,
           \<lparr>stock_code = ''T3'', company_name = None, year = 2020,
             index_score = 70, total_freq = 0\<rparr>] \<and>
   \<not> 0 < year \<lparr>stock_code = ''T2'', company_name = Some ''Beta'', year = - 5 :: int,
             index_score = 90, total_freq = 30\<rparr>"
  by (simp add: odd_years_rows_def dropna_def set_year_def int64_cast_def trunc_def
      floor_rat_numeral)

text \<open>
  Claim C7, amended. For every file without an infinite year, loading succeeds and the
  table consists, in file order, of exactly the rows whose year parses as a number: a row
  whose year does not parse is dropped and does not make the load fail. Each surviving
  row keeps its other columns and has a 64-bit integer as its year. When the parsed value
  truncated toward zero fits in 64 bits, the year is that truncated value, and it is
  positive exactly when the parsed value is at least 1.
\<close>

theorem load_data_years:
  assumes "list_all (\<lambda>r. year r \<noteq> Parses Infinite) rows"
  shows "\<exists>df. load_data (Csv rows) = ((Some df, Some (market_avg df)), []) \<and>
           list_all2 (\<lambda>r r'. \<exists>q. year r = Parses (Finite q) \<and> r' = set_year r (year r') \<and>
                         - (2 ^ 63) \<le> year r' \<and> year r' < 2 ^ 63 \<and>
                         (- (2 ^ 63) \<le> trunc q \<and> trunc q < 2 ^ 63 \<longrightarrow>
                            year r' = trunc q \<and> (0 < year r' \<longleftrightarrow> 1 \<le> q)))
             (filter (\<lambda>r. to_numeric (year r) \<noteq> None) rows) df"
proof -
  from astype_int_dropna [OF assms] obtain df where
    df: "astype_int (dropna (map (\<lambda>r. set_year r (to_numeric (year r))) rows)) = Inr df"
      "list_all2 (\<lambda>r r'. \<exists>q. year r = Parses (Finite q) \<and> r' = set_year r (int64_cast q))
         (filter (\<lambda>r. to_numeric (year r) \<noteq> None) rows) df"
    by blast
  from df(2) have
    "list_all2 (\<lambda>r r'. \<exists>q. year r = Parses (Finite q) \<and> r' = set_year r (year r') \<and>
                  - (2 ^ 63) \<le> year r' \<and> year r' < 2 ^ 63 \<and>
                  (- (2 ^ 63) \<le> trunc q \<and> trunc q < 2 ^ 63 \<longrightarrow>
                     year r' = trunc q \<and> (0 < year r' \<longleftrightarrow> 1 \<le> q)))
       (filter (\<lambda>r. to_numeric (year r) \<noteq> None) rows) df"
  proof (rule list_all2_mono)
    fix r :: raw_row and r' :: "int row"
    assume "\<exists>q. year r = Parses (Finite q) \<and> r' = set_year r (int64_cast q)"
    then obtain q where q: "year r = Parses (Finite q)" "r' = set_year r (int64_cast q)"
      by blast
    then have y: "year r' = int64_cast q"
      by simp
    have "r' = set_year r (year r')"
      unfolding y by (rule q(2))
    moreover have "- (2 ^ 63) \<le> year r' \<and> year r' < 2 ^ 63"
      unfolding y by (rule int64_cast_range)
    moreover have "year r' = trunc q \<and> (0 < year r' \<longleftrightarrow> 1 \<le> q)"
      if "- (2 ^ 63) \<le> trunc q \<and> trunc q < 2 ^ 63"
      using that by (simp add: y int64_cast_fits trunc_pos_iff)
    ultimately show "\<exists>q. year r = Parses (Finite q) \<and> r' = set_year r (year r') \<and>
                  - (2 ^ 63) \<le> year r' \<and> year r' < 2 ^ 63 \<and>
                  (- (2 ^ 63) \<le> trunc q \<and> trunc q < 2 ^ 63 \<longrightarrow>
                     year r' = trunc q \<and> (0 < year r' \<longleftrightarrow> 1 \<le> q))"
      using q(1) by blast
  qed
  with df(1) show ?thesis by simp
qed

text \<open>
  Claim C7, the amended statement at the file \<open>odd_years_rows\<close>: the row with the year
  \<^verbatim>\<open>n/a\<close> is gone, the years \<open>-5\<close> and \<open>2020.5\<close> survive as \<open>-5\<close> and \<open>2020\<close>.
\<close>

theorem load_data_years_witness:
  "list_all (\<lambda>r. year r \<noteq> Parses Infinite) odd_years_rows \<and>
   fst (fst (load_data (Csv odd_years_rows))) =
     Some [\<lparr>stock_code = ''T2'', company_name = Some ''Beta'', year = - 5,
             index_score = 90, total_freq = 30\<rparr>,
           \<lparr>stock_code = ''T3'', company_name = None, year = 2020,
             index_score = 70, total_freq = 0\<rparr>]"
proof -
  have h: "list_all (\<lambda>r. year r \<noteq> Parses Infinite) odd_years_rows"
    by (simp add: odd_years_rows_def)
  show ?thesis
    using h load_data_years [OF h]
    by (simp add: odd_years_rows_def dropna_def set_year_def int64_cast_def trunc_def
        floor_rat_numeral)
qed

section \<open>The market averages\<close>

lemma filter_eq_distinct:
  "distinct ys \<Longrightarrow> y \<in> set ys \<Longrightarrow> filter (\<lambda>z. z = y) ys = [y]"
  by (induction ys) (auto simp: filter_empty_conv)

lemma market_avg_year:
  assumes "y \<in> year ` set df"
  shows "filter (\<lambda>e. avg_year e = y) (market_avg df) =
    [\<lparr>avg_year = y,
      avg_index = mean (map index_score (filter (\<lambda>r. year r = y) df)),
      avg_freq = mean (map (\<lambda>r. of_int (total_freq r)) (filter (\<lambda>r. year r = y) df))\<rparr>]"
proof -
  have "filter (\<lambda>z. z = y) (sort (remdups (map year df))) = [y]"
    using assms by (intro filter_eq_distinct) auto
  then show ?thesis
    by (simp add: market_avg_def filter_map o_def)
qed

lemma load_data_market_avg:
  "load_data f = ((Some df, Some ma), shown) \<Longrightarrow> ma = market_avg df"
  by (cases f) (auto split: sum.splits)

text \<open>
  Claim C8. For a loaded table and a year \<open>y\<close> present in it, the market averages hold
  exactly one entry for \<open>y\<close>; its index average is the sum of the index over the records
  of year \<open>y\<close> divided by their number, and likewise for the total keyword frequency.
  When one company alone reports in \<open>y\<close>, the averages are that company's values.
\<close>

theorem market_avg_is_mean:
  fixes df :: dataset
  defines "g \<equiv> \<lambda>y. filter (\<lambda>r. year r = y) df"
  assumes "load_data f = ((Some df, Some ma), shown)" and "y \<in> year ` set df"
  shows "g y \<noteq> [] \<and>
         filter (\<lambda>e. avg_year e = y) ma =
           [\<lparr>avg_year = y,
             avg_index = (\<Sum>r\<leftarrow>g y. index_score r) / of_nat (length (g y)),
             avg_freq = (\<Sum>r\<leftarrow>g y. of_int (total_freq r)) / of_nat (length (g y))\<rparr>] \<and>
         (\<forall>r. g y = [r] \<longrightarrow>
            filter (\<lambda>e. avg_year e = y) ma =
              [\<lparr>avg_year = y, avg_index = index_score r, avg_freq = of_int (total_freq r)\<rparr>])"
proof -
  have ma: "ma = market_avg df"
    using assms(2) by (rule load_data_market_avg)
  have ne: "g y \<noteq> []"
    using assms(3) by (auto simp: g_def filter_empty_conv)
  have eq: "filter (\<lambda>e. avg_year e = y) ma =
           [\<lparr>avg_year = y,
             avg_index = (\<Sum>r\<leftarrow>g y. index_score r) / of_nat (length (g y)),
             avg_freq = (\<Sum>r\<leftarrow>g y. of_int (total_freq r)) / of_nat (length (g y))\<rparr>]"
    unfolding ma g_def using market_avg_year [OF assms(3)] by (simp add: mean_def)
  show ?thesis
    using ne eq by auto
qed

text \<open>
  Claim C8 on the scenario table: in 2020 only \<^verbatim>\<open>T1\<close> reports and the averages are its
  values 80 and 10; in 2021 the averages are those of \<^verbatim>\<open>T1\<close> and \<^verbatim>\<open>T2\<close>.
\<close>

theorem market_avg_is_mean_witness:
  "load_data (Csv scenario_rows) =
     ((Some scenario_df,
       Some [\<lparr>avg_year = 2020, avg_index = 80, avg_freq = 10\<rparr>,
             \<lparr>avg_year = 2021, avg_index = 175 / 2, avg_freq = 25\<rparr>]), []) \<and>
   2020 \<in> year ` set scenario_df \<and>
   2021 \<in> year ` set scenario_df \<and>
   filter (\<lambda>r. year r = 2020) scenario_df =
     [\<lparr>stock_code = ''T1'', company_name = Some ''Alpha'', year = 2020,
       index_score = 80, total_freq = 10\<rparr>] \<and>
   filter (\<lambda>e. avg_year e = 2020)
     [\<lparr>avg_year = 2020, avg_index = 80, avg_freq = 10\<rparr>,
      \<lparr>avg_year = 2021, avg_index = 175 / 2, avg_freq = 25\<rparr>] =
     [\<lparr>avg_year = 2020, avg_index = 80, avg_freq = 10\<rparr>] \<and>
   filter (\<lambda>e. avg_year e = 2021)
     [\<lparr>avg_year = 2020, avg_index = 80, avg_freq = 10\<rparr>,
      \<lparr>avg_year = 2021, avg_index = 175 / 2, avg_freq = 25\<rparr>] =
     [\<lparr>avg_year = 2021, avg_index = (85 + 90) / 2, avg_freq = (20 + 30) / 2\<rparr>]"
proof -
  have l: "load_data (Csv scenario_rows) =
     ((Some scenario_df,
       Some [\<lparr>avg_year = 2020, avg_index = 80, avg_freq = 10\<rparr>,
             \<lparr>avg_year = 2021, avg_index = 175 / 2, avg_freq = 25\<rparr>]), [])"
    by (simp add: scenario_rows_def scenario_df_def dropna_def set_year_def int64_cast_def
        trunc_def market_avg_def mean_def)
  have y0: "2020 \<in> year ` set scenario_df" and y1: "2021 \<in> year ` set scenario_df"
    by (simp_all add: scenario_df_def)
  show ?thesis
    using l y0 y1 market_avg_is_mean [OF l y0] market_avg_is_mean [OF l y1]
    by (simp add: scenario_df_def)
qed

section \<open>Failed loads\<close>

lemma load_data_failed:
  "fst (fst (load_data f)) = None \<Longrightarrow> fst (load_data f) = (None, None)"
  by (cases f) (auto split: sum.splits)

lemma load_data_silent_iff:
  "fst (fst (load_data f)) = None \<Longrightarrow> snd (load_data f) = [] \<longleftrightarrow> f = Missing"
  by (cases f) (auto split: sum.splits)

text \<open>
  Claim C4, as stated, fails: what \<^verbatim>\<open>load_data\<close> returns to its caller (the first
  component of the model's result) is the pair \<^verbatim>\<open>(None, None)\<close> both when the file does
  not exist and when it cannot be parsed, so the caller cannot tell the two apart: for
  a file with a bad header \<^verbatim>\<open>main\<close> too reports that it cannot find the data file.
\<close>

theorem same_failure_outcome_counterexample:
  "fst (load_data Missing) = (None, None) \<and>
   fst (load_data (Malformed ''bad header'')) = (None, None) \<and>
   fst (load_data Missing) = fst (load_data (Malformed ''bad header'')) \<and>
   main_body contains_dot_fragment (load_data (Malformed ''bad header'')) ByName ''Alpha''
       (2010, 2023) =
     Inr (Stopped [LoadFailed (ReadFailure ''bad header''), CannotFindDataFile])"
  by (simp add: main_body_def)

text \<open>
  Claim C4, amended. Every failed load returns the same outcome \<^verbatim>\<open>(None, None)\<close>, and
  \<^verbatim>\<open>main\<close> answers it with the same "cannot find the data file" message and stops. The
  failures differ only in what the loader itself shows before returning: nothing when
  the file does not exist, a "loading failed" message with the cause when the file
  exists but cannot be parsed.
\<close>

theorem load_failures_differ_in_message_only:
  assumes "fst (fst (load_data f)) = None"
  shows "fst (load_data f) = (None, None) \<and>
         (snd (load_data f) = [] \<longleftrightarrow> f = Missing) \<and>
         snd (load_data (Malformed e)) = [LoadFailed (ReadFailure e)] \<and>
         main_body contains (load_data f) mode query selected_years =
           Inr (Stopped (snd (load_data f) @ [CannotFindDataFile]))"
  using assms load_data_failed [OF assms] load_data_silent_iff [OF assms]
  by (simp add: main_body_def)

text \<open>
  Claim C4, the amended statement at a missing file and at a file with a bad header:
  both runs end with the "cannot find the data file" message, the second one after the
  loader's own message.
\<close>

theorem load_failures_differ_in_message_only_witness:
  "fst (fst (load_data (Malformed ''bad header''))) = None \<and>
   fst (fst (load_data Missing)) = None \<and>
   main_body contains_dot_fragment (load_data Missing) ByName ''Alpha'' (2010, 2023) =
     Inr (Stopped [CannotFindDataFile]) \<and>
   main_body contains_dot_fragment (load_data (Malformed ''bad header'')) ByName ''Alpha''
       (2010, 2023) =
     Inr (Stopped [LoadFailed (ReadFailure ''bad header''), CannotFindDataFile])"
proof -
  have m: "fst (fst (load_data Missing)) = None"
    and p: "fst (fst (load_data (Malformed ''bad header''))) = None"
    by simp_all
  show ?thesis
    using m p
      load_failures_differ_in_message_only [OF m,
        of "''bad header''" contains_dot_fragment ByName "''Alpha''" "(2010, 2023)"]
      load_failures_differ_in_message_only [OF p,
        of "''bad header''" contains_dot_fragment ByName "''Alpha''" "(2010, 2023)"]
    by simp
qed

text \<open>
  Claim C5, as stated, fails: the cache stores whatever \<^verbatim>\<open>load_data\<close> returned. After a
  first call that found no file, a call made once the scenario file is in place still
  returns the stored failure, although reading the file would now succeed.
\<close>

theorem failed_load_cached_counterexample:
  "fst (cached_load_data (snd (cached_load_data None Missing)) (Csv scenario_rows)) =
     ((None, None), []) \<and>
   fst (main contains_dot_fragment (snd (cached_load_data None Missing)) (Csv scenario_rows)
          ByCode ''T1'' (2020, 2021)) =
     Inr (Stopped [CannotFindDataFile]) \<and>
   fst (fst (load_data (Csv scenario_rows))) = Some scenario_df"
  by (simp add: main_def main_body_def cached_load_data_def Let_def scenario_rows_def
      scenario_df_def dropna_def set_year_def int64_cast_def trunc_def)

text \<open>
  Claim C5, amended. A failed load is cached like a successful one: the first call runs
  \<^verbatim>\<open>load_data\<close> and stores its outcome, and every later call returns that outcome
  without reading the file again, whatever the file has become, as long as the cache
  lives.
\<close>

theorem cached_load_data_keeps_first_outcome:
  assumes "cached_load_data None f = (r, c)"
  shows "r = load_data f \<and> (\<forall>f'. cached_load_data c f' = (r, c))"
  using assms by (auto simp: cached_load_data_def Let_def)

text \<open>
  Claim C5, the amended statement at a first call without a file and a second call with
  the scenario file.
\<close>

theorem cached_load_data_keeps_first_outcome_witness:
  "cached_load_data None Missing = (((None, None), []), Some ((None, None), [])) \<and>
   cached_load_data (Some ((None, None), [])) (Csv scenario_rows) =
     (((None, None), []), Some ((None, None), []))"
proof -
  have h: "cached_load_data None Missing = (((None, None), []), Some ((None, None), []))"
    by (simp add: cached_load_data_def Let_def)
  from cached_load_data_keeps_first_outcome [OF h]
  have "cached_load_data (Some ((None, None), [])) (Csv scenario_rows) =
     (((None, None), []), Some ((None, None), []))"
    by blast
  with h show ?thesis
    by blast
qed

section \<open>Ranks\<close>

lemma takeWhile_desc:
  fixes v :: "'a::linorder"
  assumes "sorted_wrt (\<lambda>x y. y \<le> x) xs" and "v \<in> set xs"
  shows "takeWhile (\<lambda>x. x \<noteq> v) xs = filter (\<lambda>x. v < x) xs"
  using assms
proof (induction xs)
  case Nil
  then show ?case by simp
next
  case (Cons a xs)
  show ?case
  proof (cases "a = v")
    case True
    with Cons.prems have "\<forall>y\<in>set xs. \<not> v < y" by auto
    then have "filter (\<lambda>x. v < x) xs = []" by (simp add: filter_empty_conv)
    with True show ?thesis by simp
  next
    case False
    with Cons.prems have "v \<in> set xs" and "v < a" by auto
    with Cons show ?thesis by simp
  qed
qed

lemma length_filter_mset:
  "mset xs = mset ys \<Longrightarrow> length (filter P xs) = length (filter P ys)"
  by (metis mset_filter size_mset)

lemma rank_min_desc_count:
  assumes "v \<in> set vs"
  shows "rank_min_desc vs v = Suc (length (filter (\<lambda>x. v < x) vs))"
proof -
  have "sorted_wrt (\<lambda>x y. y \<le> x) (rev (sort vs))"
    by (simp add: sorted_wrt_rev)
  moreover have "v \<in> set (rev (sort vs))"
    using assms by simp
  ultimately have "takeWhile (\<lambda>x. x \<noteq> v) (rev (sort vs)) = filter (\<lambda>x. v < x) (rev (sort vs))"
    by (rule takeWhile_desc)
  moreover have "length (filter (\<lambda>x. v < x) (rev (sort vs))) = length (filter (\<lambda>x. v < x) vs)"
    by (rule length_filter_mset) simp
  ultimately show ?thesis
    by (simp add: rank_min_desc_def)
qed

lemma rank_series_filter:
  "filter (\<lambda>(r, k). P r) (rank_series cm) =
     map (\<lambda>r. (r, rank_min_desc (map index_score cm) (index_score r))) (filter P cm)"
  by (simp add: rank_series_def filter_map o_def)

lemma set_target_company [simp]:
  "set (target_company df code) = {r \<in> set df. stock_code r = code}"
  by (auto simp: target_company_def)

lemma last_filtered:
  assumes "filter_years ys (target_company df code) \<noteq> []"
  shows "last (filter_years ys (target_company df code)) \<in> set df"
    and "stock_code (last (filter_years ys (target_company df code))) = code"
proof -
  have "last (filter_years ys (target_company df code)) \<in> set (filter_years ys (target_company df code))"
    using assms by (rule last_in_set)
  then show "last (filter_years ys (target_company df code)) \<in> set df"
    and "stock_code (last (filter_years ys (target_company df code))) = code"
    by (auto simp: filter_years_def)
qed

lemma sorted_filtered: "sorted (map year (filter_years ys (target_company df code)))"
  by (simp add: filter_years_def target_company_def sorted_filter)

lemma sorted_le_last:
  fixes f :: "'a \<Rightarrow> int"
  shows "sorted (map f xs) \<Longrightarrow> x \<in> set xs \<Longrightarrow> f x \<le> f (last xs)"
  by (induction xs) auto

lemma year_le_last:
  "r \<in> set (filter_years ys (target_company df code)) \<Longrightarrow>
     year r \<le> year (last (filter_years ys (target_company df code)))"
  using sorted_filtered by (rule sorted_le_last)

lemma filter_Cons_find:
  "filter P xs = r0 # rest \<Longrightarrow> find P xs = Some r0"
  by (induction xs) (auto split: if_splits)

lemma my_rank_compute:
  assumes "last fc \<in> set df" and "stock_code (last fc) = code"
  shows "\<exists>r0 rest.
           filter (\<lambda>r. stock_code r = code) (filter (\<lambda>r. year r = year (last fc)) df) = r0 # rest \<and>
           my_rank (compute_metrics df code fc) =
             Some (rank_min_desc (map index_score (filter (\<lambda>r. year r = year (last fc)) df))
                     (index_score r0))"
proof -
  have "last fc \<in> set (filter (\<lambda>r. stock_code r = code) (filter (\<lambda>r. year r = year (last fc)) df))"
    using assms by simp
  then obtain r0 rest where
    eq: "filter (\<lambda>r. stock_code r = code) (filter (\<lambda>r. year r = year (last fc)) df) = r0 # rest"
    by (cases "filter (\<lambda>r. stock_code r = code) (filter (\<lambda>r. year r = year (last fc)) df)")
      (simp_all del: filter_filter)
  have "my_rank (compute_metrics df code fc) =
             Some (rank_min_desc (map index_score (filter (\<lambda>r. year r = year (last fc)) df))
                     (index_score r0))"
    by (simp add: compute_metrics_def Let_def rank_series_filter eq del: filter_filter)
  with eq show ?thesis by blast
qed

lemma rank_min_desc_le:
  assumes "v \<in> set vs"
  shows "rank_min_desc vs v \<le> length vs"
proof -
  have "length (filter (\<lambda>x. v < x) vs) < length vs"
    using assms by (intro length_filter_less [of v]) auto
  then show ?thesis
    by (simp add: rank_min_desc_count [OF assms])
qed

lemma trunc_of_nat [simp]: "trunc (of_nat k) = int k"
  by (simp add: trunc_def)

lemma trunc_nonneg: "0 \<le> x \<Longrightarrow> trunc x = \<lfloor>x\<rfloor>"
  by (simp add: trunc_def)

subsection \<open>The rounding to doubles\<close>

text \<open>
  The exponent found brackets the value, and the rounded value has a significand of 53
  bits and lies within half a unit in the last place of the exact one.
\<close>

lemma bit_length_bounds:
  "0 < n \<Longrightarrow> 2 ^ (bit_length n - 1) \<le> n \<and> n < 2 ^ bit_length n"
proof (induction n rule: bit_length.induct)
  case (1 n)
  show ?case
  proof (cases "n div 2 = 0")
    case True
    with "1.prems" have "n = 1" by (simp add: div_eq_0_iff) 
    then show ?thesis by (simp add: bit_length.simps)
  next
    case False
    with 1 have ih: "2 ^ (bit_length (n div 2) - 1) \<le> n div 2" "n div 2 < 2 ^ bit_length (n div 2)"
      by auto
    from False have pos: "0 < bit_length (n div 2)"
      by (simp add: bit_length.simps [of "n div 2"])
    have b: "bit_length n = Suc (bit_length (n div 2))"
      using "1.prems" by (simp add: bit_length.simps [of n])
    from pos have e: "(2::nat) ^ bit_length (n div 2) = 2 * 2 ^ (bit_length (n div 2) - 1)"
      by (cases "bit_length (n div 2)") simp_all
    from ih show ?thesis
      unfolding b using e by (simp) linarith
  qed
qed

lemma two_pow_pos: "0 < two_pow k"
  by (simp add: two_pow_def)

lemma two_pow_Suc: "two_pow (k + 1) = 2 * two_pow k"
proof (cases "0 \<le> k")
  case True
  then show ?thesis by (simp add: two_pow_def nat_add_distrib)
next
  case False
  then have "nat (- k) = Suc (nat (- (k + 1)))" by simp
  with False show ?thesis
    by (cases "k + 1 = 0") (auto simp: two_pow_def)
qed

lemma bit_length_pos: "0 < n \<Longrightarrow> 0 < bit_length n"
  by (simp add: bit_length.simps [of n])

lemma two_pow_neg: "0 < L \<Longrightarrow> two_pow (- int L) = 1 / 2 ^ L"
  by (simp add: two_pow_def)

lemma two_pow_neg_Suc: "0 < L \<Longrightarrow> two_pow (- int L + 1) = 1 / 2 ^ (L - 1)"
  by (cases L) (auto simp: two_pow_def)

lemma exponent_bounds:
  assumes "0 < x"
  shows "two_pow (exponent x) \<le> x \<and> x < two_pow (exponent x + 1)"
proof (cases "1 \<le> x")
  case True
  define n where "n = nat \<lfloor>x\<rfloor>"
  have n: "0 < n" "of_nat n \<le> x" "x < of_nat n + 1"
    using True by (simp_all add: n_def) linarith+
  from bit_length_bounds [OF n(1)] have
    b: "2 ^ (bit_length n - 1) \<le> n" "n + 1 \<le> 2 ^ bit_length n"
    by simp_all
  have L: "0 < bit_length n"
    using n(1) by (rule bit_length_pos)
  have e: "exponent x = int (bit_length n) - 1"
    using True by (simp add: exponent_def n_def)
  have lo: "two_pow (exponent x) = 2 ^ (bit_length n - 1)"
    using L by (simp add: e two_pow_def nat_diff_distrib)
  have hi: "two_pow (exponent x + 1) = 2 ^ bit_length n"
    by (simp add: e two_pow_def)
  have "(of_nat (2 ^ (bit_length n - 1)) :: rat) \<le> of_nat n"
    using b(1) by (simp only: of_nat_le_iff)
  then have r1: "(2::rat) ^ (bit_length n - 1) \<le> of_nat n"
    by simp
  have "(of_nat (n + 1) :: rat) \<le> of_nat (2 ^ bit_length n)"
    using b(2) by (simp only: of_nat_le_iff)
  then have r2: "of_nat n + 1 \<le> (2::rat) ^ bit_length n"
    by simp
  from r1 r2 n show ?thesis
    unfolding lo hi by linarith
next
  case False
  define y where "y = 1 / x"
  define n where "n = nat (\<lceil>y\<rceil> - 1)"
  from False assms have y: "1 < y"
    by (simp add: y_def)
  then have c: "2 \<le> \<lceil>y\<rceil>"
    by linarith
  have n: "0 < n" "of_nat n < y" "y \<le> of_nat n + 1"
    using c by (simp_all add: n_def) linarith+
  from bit_length_bounds [OF n(1)] have
    b: "2 ^ (bit_length n - 1) \<le> n" "n + 1 \<le> 2 ^ bit_length n"
    by simp_all
  have L: "0 < bit_length n"
    using n(1) by (rule bit_length_pos)
  have e: "exponent x = - int (bit_length n)"
    using False by (simp add: exponent_def n_def y_def)
  have "(of_nat (2 ^ (bit_length n - 1)) :: rat) \<le> of_nat n"
    using b(1) by (simp only: of_nat_le_iff)
  then have "(2::rat) ^ (bit_length n - 1) \<le> of_nat n"
    by simp
  with n have lo: "2 ^ (bit_length n - 1) < y"
    by linarith
  have "(of_nat (n + 1) :: rat) \<le> of_nat (2 ^ bit_length n)"
    using b(2) by (simp only: of_nat_le_iff)
  then have "of_nat n + 1 \<le> (2::rat) ^ bit_length n"
    by simp
  with n have hi: "y \<le> 2 ^ bit_length n"
    by linarith
  have x: "x = 1 / y"
    by (simp add: y_def)
  from hi y have h1: "1 / 2 ^ bit_length n \<le> x"
    unfolding x by (intro divide_left_mono) simp_all
  from lo y have h2: "x < 1 / 2 ^ (bit_length n - 1)"
    unfolding x by (intro divide_strict_left_mono mult_pos_pos) simp_all
  from h1 h2 show ?thesis
    unfolding e two_pow_neg [OF L] two_pow_neg_Suc [OF L] by blast
qed

lemma two_pow_add_nat: "two_pow (k + int n) = 2 ^ n * two_pow k"
proof (induction n)
  case 0
  show ?case by simp
next
  case (Suc n)
  have "two_pow (k + int (Suc n)) = two_pow ((k + int n) + 1)"
    by (simp add: ac_simps)
  also have "\<dots> = 2 * two_pow (k + int n)"
    by (rule two_pow_Suc)
  finally show ?case
    by (simp add: Suc)
qed

lemma round_half_even_close: "\<bar>of_int (round_half_even y) - y\<bar> \<le> 1 / 2"
proof -
  have "of_int \<lfloor>y\<rfloor> \<le> y" "y < of_int \<lfloor>y\<rfloor> + 1"
    by simp_all linarith
  then show ?thesis
    by (auto simp: round_half_even_def Let_def abs_le_iff)
qed

lemma round_half_even_mono:
  assumes "of_int a \<le> y" and "y \<le> of_int b"
  shows "a \<le> round_half_even y \<and> round_half_even y \<le> b"
proof -
  have f: "a \<le> \<lfloor>y\<rfloor>" "\<lfloor>y\<rfloor> \<le> b"
    using assms by (simp_all add: le_floor_iff floor_le_iff)
  have "\<lfloor>y\<rfloor> + 1 \<le> b" if "of_int \<lfloor>y\<rfloor> < y"
  proof -
    from that assms(2) have "of_int \<lfloor>y\<rfloor> < (of_int b :: rat)" by linarith
    then show ?thesis by simp
  qed
  with f show ?thesis
    by (auto simp: round_half_even_def Let_def)
qed

lemma to_double_significand:
  assumes "0 < x"
  shows "\<exists>m. to_double x = of_int m * two_pow (exponent x - 52) \<and> 2 ^ 52 \<le> m \<and> m \<le> 2 ^ 53"
proof -
  define u where "u = two_pow (exponent x - 52)"
  have u: "0 < u"
    by (simp add: u_def two_pow_pos)
  have lo: "two_pow (exponent x) = 2 ^ 52 * u"
    using two_pow_add_nat [of "exponent x - 52" 52] by (simp add: u_def)
  have hi: "two_pow (exponent x + 1) = 2 ^ 53 * u"
    using two_pow_add_nat [of "exponent x - 52" 53] by (simp add: u_def add.commute)
  from exponent_bounds [OF assms] have "2 ^ 52 * u \<le> x" "x < 2 ^ 53 * u"
    unfolding lo hi by simp_all
  with u have "of_int (2 ^ 52) \<le> x / u" "x / u \<le> of_int (2 ^ 53)"
    by (simp_all add: pos_le_divide_eq pos_divide_le_eq)
  then have "2 ^ 52 \<le> round_half_even (x / u) \<and> round_half_even (x / u) \<le> 2 ^ 53"
    by (rule round_half_even_mono)
  moreover have "to_double x = of_int (round_half_even (x / u)) * u"
    using assms by (simp add: to_double_def Let_def u_def)
  ultimately show ?thesis
    unfolding u_def by blast
qed

lemma to_double_close:
  assumes "0 < x"
  shows "\<bar>to_double x - x\<bar> \<le> two_pow (exponent x - 53)"
proof -
  define u where "u = two_pow (exponent x - 52)"
  have u: "0 < u"
    by (simp add: u_def two_pow_pos)
  have h: "u = 2 * two_pow (exponent x - 53)"
    using two_pow_Suc [of "exponent x - 53"] by (simp add: u_def)
  have d: "to_double x = of_int (round_half_even (x / u)) * u"
    using assms by (simp add: to_double_def Let_def u_def)
  have "\<bar>of_int (round_half_even (x / u)) - x / u\<bar> * u \<le> 1 / 2 * u"
    using round_half_even_close [of "x / u"] u by (intro mult_right_mono) simp_all
  moreover have "\<bar>of_int (round_half_even (x / u)) - x / u\<bar> * u =
      \<bar>of_int (round_half_even (x / u)) * u - x\<bar>"
  proof -
    have "(of_int (round_half_even (x / u)) - x / u) * u =
        of_int (round_half_even (x / u)) * u - x"
      using u by (simp add: left_diff_distrib)
    then have "\<bar>of_int (round_half_even (x / u)) * u - x\<bar> =
        \<bar>of_int (round_half_even (x / u)) - x / u\<bar> * \<bar>u\<bar>"
      by (simp only: abs_mult [symmetric])
    with u show ?thesis
      by simp
  qed
  ultimately show ?thesis
    unfolding d h by simp
qed

lemma to_double_nonneg: "0 \<le> x \<Longrightarrow> 0 \<le> to_double x"
proof (cases "x = 0")
  case True
  then show ?thesis by (simp add: to_double_def)
next
  case False
  assume "0 \<le> x"
  with False have "0 < x" by simp
  from to_double_significand [OF this] obtain m where
    "to_double x = of_int m * two_pow (exponent x - 52)" "2 ^ 52 \<le> m"
    by blast
  then show ?thesis
    using two_pow_pos [of "exponent x - 52"] by simp
qed

lemma trunc_percent:
  "trunc (to_double (to_double (of_nat r / of_nat n) * 100)) =
     \<lfloor>to_double (to_double (of_nat r / of_nat n) * 100)\<rfloor>"
  by (intro trunc_nonneg to_double_nonneg mult_nonneg_nonneg) simp_all

lemma metrics_rank:
  assumes "fc = filter_years ys (target_company df code)" and "fc \<noteq> []"
  shows "\<exists>r0 rest.
           filter (\<lambda>r. stock_code r = code) (filter (\<lambda>r. year r = year (last fc)) df) = r0 # rest \<and>
           my_rank (compute_metrics df code fc) =
             Some (Suc (length (filter (\<lambda>r. index_score r0 < index_score r)
                                  (filter (\<lambda>r. year r = year (last fc)) df)))) \<and>
           Suc (length (filter (\<lambda>r. index_score r0 < index_score r)
                          (filter (\<lambda>r. year r = year (last fc)) df)))
             \<le> total_comps (compute_metrics df code fc)"
proof -
  have l: "last fc \<in> set df" "stock_code (last fc) = code"
    using assms last_filtered [of ys df code] by auto
  have n: "total_comps (compute_metrics df code fc) =
             length (filter (\<lambda>r. year r = year (last fc)) df)"
    by (simp add: compute_metrics_def Let_def)
  from my_rank_compute [OF l] obtain r0 rest where
    r0: "filter (\<lambda>r. stock_code r = code) (filter (\<lambda>r. year r = year (last fc)) df) = r0 # rest"
    and rk: "my_rank (compute_metrics df code fc) =
       Some (rank_min_desc (map index_score (filter (\<lambda>r. year r = year (last fc)) df))
               (index_score r0))"
    by blast
  have "r0 \<in> set (filter (\<lambda>r. stock_code r = code) (filter (\<lambda>r. year r = year (last fc)) df))"
    unfolding r0 by simp
  then have v: "index_score r0 \<in> set (map index_score (filter (\<lambda>r. year r = year (last fc)) df))"
    by auto
  have c: "rank_min_desc (map index_score (filter (\<lambda>r. year r = year (last fc)) df)) (index_score r0) =
      Suc (length (filter (\<lambda>r. index_score r0 < index_score r)
                                  (filter (\<lambda>r. year r = year (last fc)) df)))"
    unfolding rank_min_desc_count [OF v] by (simp add: filter_map o_def del: filter_filter)
  from rank_min_desc_le [OF v] have "rank_min_desc (map index_score (filter (\<lambda>r. year r = year (last fc)) df)) (index_score r0) \<le> total_comps (compute_metrics df code fc)"
    using n by simp
  with r0 rk c show ?thesis
    by (metis (no_types, lifting))
qed

lemma rank_card_value:
  assumes "my_rank m = Some k" and "0 < total_comps m"
  shows "rank_card m =
           Inr (int k, \<lfloor>to_double (to_double (of_nat k / of_nat (total_comps m)) * 100)\<rfloor>)"
proof -
  have "rank_card m =
          Inr (trunc (of_nat k),
               trunc (to_double (to_double (of_nat k / of_nat (total_comps m)) * 100)))"
    using assms by (simp add: rank_card_def)
  then show ?thesis
    by (simp only: trunc_of_nat trunc_percent)
qed

lemma rank_card_filtered:
  assumes "fc = filter_years ys (target_company df code)" and "fc \<noteq> []"
  shows "\<exists>k. my_rank (compute_metrics df code fc) = Some k \<and>
             rank_card (compute_metrics df code fc) =
               Inr (int k,
                    \<lfloor>to_double (to_double
                       (of_nat k / of_nat (total_comps (compute_metrics df code fc))) * 100)\<rfloor>)"
proof -
  from metrics_rank [OF assms] obtain k where
    k: "my_rank (compute_metrics df code fc) = Some k"
    and "Suc 0 \<le> k" "k \<le> total_comps (compute_metrics df code fc)"
    by auto
  then have "0 < total_comps (compute_metrics df code fc)"
    by linarith
  with k rank_card_value show ?thesis
    by blast
qed



section \<open>The scenario of the specification, evaluated\<close>

lemma scenario_T1_series:
  "filter_years (2020, 2021) (target_company scenario_df ''T1'') =
     [\<lparr>stock_code = ''T1'', company_name = Some ''Alpha'', year = 2020,
       index_score = 80, total_freq = 10\<rparr>,
      \<lparr>stock_code = ''T1'', company_name = Some ''Alpha'', year = 2021,
       index_score = 85, total_freq = 20\<rparr>]"
  by (simp add: filter_years_def target_company_def scenario_df_def)

lemma scenario_T1_metrics:
  "compute_metrics scenario_df ''T1'' (filter_years (2020, 2021) (target_company scenario_df ''T1'')) =
     \<lparr>latest_idx = 85, latest_yr = 2021, idx_delta = 5, my_rank = Some 2, total_comps = 2\<rparr>"
  unfolding scenario_T1_series
  by (simp add: compute_metrics_def Let_def scenario_df_def rank_series_def rank_min_desc_def
      py_round2_def)

lemma scenario_T1_rank_card:
  "rank_card \<lparr>latest_idx = 85, latest_yr = 2021, idx_delta = 5, my_rank = Some 2,
      total_comps = 2\<rparr> = Inr (2, 100)"
  by code_simp

lemma scenario_T1_dashboard:
  "main_body contains_dot_fragment ((Some scenario_df, Some (market_avg scenario_df)), [])
     ByCode ''T1'' (2020, 2021) =
   Inr (Dashboard (Some ''Alpha'') ''T1''
          \<lparr>latest_idx = 85, latest_yr = 2021, idx_delta = 5, my_rank = Some 2,
           total_comps = 2\<rparr> 2 100)"
proof -
  have fm: "find_matches contains_dot_fragment scenario_df ByCode ''T1'' =
      Inr [\<lparr>stock_code = ''T1'', company_name = Some ''Alpha'', year = 2020,
             index_score = 80, total_freq = 10\<rparr>,
           \<lparr>stock_code = ''T1'', company_name = Some ''Alpha'', year = 2021,
             index_score = 85, total_freq = 20\<rparr>]"
    by (simp add: find_matches_def scenario_df_def)
  show ?thesis
    by (simp add: main_body_def fm Let_def scenario_T1_metrics scenario_T1_rank_card)
      (simp add: scenario_T1_series)
qed

lemma tied_ranks:
  "my_rank (compute_metrics tied_df ''T1''
      (filter_years (2021, 2021) (target_company tied_df ''T1''))) = Some 1"
  "my_rank (compute_metrics tied_df ''T2''
      (filter_years (2021, 2021) (target_company tied_df ''T2''))) = Some 3"
  "my_rank (compute_metrics tied_df ''T3''
      (filter_years (2021, 2021) (target_company tied_df ''T3''))) = Some 1"
  by (simp_all add: compute_metrics_def Let_def tied_df_def rank_series_def rank_min_desc_def
      filter_years_def target_company_def)

section \<open>The market rank\<close>

text \<open>
  Claim C1. For a company whose year-filtered series is not empty, the reported rank is
  taken in the year of the last record of that series, over the whole table: it is one
  more than the number of records of that year, of any company, whose index is strictly
  greater than the index of the company's record of that year (the first one in table
  order; when the company has a single record in that year it is the latest record, and
  the index is the latest value shown). Equal values therefore share the best rank and
  the next value skips the tied positions: the values 90, 90, 80 get the ranks 1, 1, 3.
\<close>

theorem market_rank_min_on_ties:
  assumes "fc = filter_years ys (target_company df code)" and "fc \<noteq> []"
  defines "m \<equiv> compute_metrics df code fc"
  shows "latest_yr m = year (last fc) \<and>
         (\<forall>r\<in>set fc. year r \<le> latest_yr m) \<and>
         (\<exists>r0. find (\<lambda>r. year r = latest_yr m \<and> stock_code r = code) df = Some r0 \<and>
            my_rank m =
              Some (Suc (length (filter (\<lambda>r. year r = latest_yr m \<and> index_score r0 < index_score r) df))) \<and>
            (length (filter (\<lambda>r. year r = latest_yr m \<and> stock_code r = code) df) = 1 \<longrightarrow>
               index_score r0 = latest_idx m)) \<and>
         map (rank_min_desc [90, 90, 80]) [90, 90, 80] = [1, 1, 3]"
proof -
  have yr: "latest_yr m = year (last fc)" and ix: "latest_idx m = index_score (last fc)"
    by (simp_all add: m_def compute_metrics_def Let_def)
  have l: "last fc \<in> set df" "stock_code (last fc) = code"
    using assms(1,2) last_filtered [of ys df code] by auto
  from metrics_rank [OF assms(1,2)] obtain r0 rest where
    r0: "filter (\<lambda>r. year r = latest_yr m \<and> stock_code r = code) df = r0 # rest"
    and rk: "my_rank m =
             Some (Suc (length (filter (\<lambda>r. year r = latest_yr m \<and> index_score r0 < index_score r) df)))"
    unfolding m_def [symmetric] yr [symmetric] by auto
  have f: "find (\<lambda>r. year r = latest_yr m \<and> stock_code r = code) df = Some r0"
    using r0 by (rule filter_Cons_find)
  have u: "index_score r0 = latest_idx m"
    if "length (filter (\<lambda>r. year r = latest_yr m \<and> stock_code r = code) df) = 1"
  proof -
    from that r0 have "filter (\<lambda>r. year r = latest_yr m \<and> stock_code r = code) df = [r0]"
      by simp
    moreover have "last fc \<in> set (filter (\<lambda>r. year r = latest_yr m \<and> stock_code r = code) df)"
      using l yr by simp
    ultimately have "last fc = r0" by simp
    with ix show ?thesis by simp
  qed
  have e: "map (rank_min_desc [90, 90, 80]) [90, 90, 80] = [1, 1, 3]"
    by (simp add: rank_min_desc_def)
  have mx: "\<forall>r\<in>set fc. year r \<le> latest_yr m"
    unfolding yr assms(1) using year_le_last by blast
  from yr mx f rk u e show ?thesis
    by blast
qed

text \<open>
  Claim C1 on the scenario table: \<^verbatim>\<open>T1\<close> over 2020 to 2021 is ranked in 2021, where its
  index 85 is below the 90 of \<^verbatim>\<open>T2\<close>, so its rank is 2. On \<open>tied_df\<close>, with the
  indices 90, 80 and 90, the companies get the ranks 1, 3 and 1.
\<close>

theorem market_rank_min_on_ties_witness:
  "filter_years (2020, 2021) (target_company scenario_df ''T1'') \<noteq> [] \<and>
   my_rank (compute_metrics scenario_df ''T1''
      (filter_years (2020, 2021) (target_company scenario_df ''T1''))) = Some 2 \<and>
   find (\<lambda>r. year r = 2021 \<and> stock_code r = ''T1'') scenario_df =
     Some \<lparr>stock_code = ''T1'', company_name = Some ''Alpha'', year = 2021,
       index_score = 85, total_freq = 20\<rparr> \<and>
   Suc (length (filter (\<lambda>r. year r = 2021 \<and> 85 < index_score r) scenario_df)) = 2 \<and>
   length (filter (\<lambda>r. year r = 2021 \<and> stock_code r = ''T1'') scenario_df) = 1 \<and>
   filter_years (2021, 2021) (target_company tied_df ''T2'') \<noteq> [] \<and>
   my_rank (compute_metrics tied_df ''T1''
      (filter_years (2021, 2021) (target_company tied_df ''T1''))) = Some 1 \<and>
   my_rank (compute_metrics tied_df ''T3''
      (filter_years (2021, 2021) (target_company tied_df ''T3''))) = Some 1 \<and>
   my_rank (compute_metrics tied_df ''T2''
      (filter_years (2021, 2021) (target_company tied_df ''T2''))) = Some 3 \<and>
   Suc (length (filter (\<lambda>r. year r = 2021 \<and> 80 < index_score r) tied_df)) = 3"
proof -
  have ne: "filter_years (2020, 2021) (target_company scenario_df ''T1'') \<noteq> []"
    by (simp add: scenario_T1_series)
  have ne2: "filter_years (2021, 2021) (target_company tied_df ''T2'') \<noteq> []"
    by (simp add: filter_years_def target_company_def tied_df_def)
  have c: "Suc (length (filter (\<lambda>r. year r = 2021 \<and> 80 < index_score r) tied_df)) = 3"
    by (simp add: tied_df_def)
  show ?thesis
    using ne ne2 c tied_ranks market_rank_min_on_ties [OF refl ne]
      market_rank_min_on_ties [OF refl ne2]
    by (simp add: scenario_T1_metrics) (simp add: scenario_df_def)
qed

text \<open>
  What line 188 shows when the dashboard is built: the rank, and the floor of the
  doubles' value of \<open>r / n * 100\<close>, where \<open>n\<close> is the number of records of the latest
  year in the whole table.
\<close>

lemma dashboard_bucket:
  assumes "main_body contains ld mode query sel = Inr (Dashboard nm code m shown_rank top_pct)"
  shows "\<exists>df r. fst (fst ld) = Some df \<and>
           total_comps m = length (filter (\<lambda>x. year x = latest_yr m) df) \<and>
           0 < total_comps m \<and>
           my_rank m = Some r \<and>
           shown_rank = int r \<and>
           top_pct = \<lfloor>to_double (to_double (of_nat r / of_nat (total_comps m)) * 100)\<rfloor>"
proof -
  from assms obtain df where df: "fst (fst ld) = Some df"
    by (cases "fst (fst ld)") (auto simp: main_body_def)
  from assms df obtain first_row rest where
    fm: "find_matches contains df mode query = Inr (first_row # rest)"
    by (auto simp: main_body_def split: if_splits sum.splits list.splits)
  let ?fc = "filter_years sel (target_company df (stock_code first_row))"
  from assms df fm have ne: "?fc \<noteq> []"
    by (auto simp: main_body_def Let_def split: if_splits)
  from assms df fm ne have m: "m = compute_metrics df (stock_code first_row) ?fc"
    and rc: "rank_card m = Inr (shown_rank, top_pct)"
    by (auto simp: main_body_def Let_def split: if_splits sum.splits)
  from rank_card_filtered [OF refl ne] m obtain r where
    r: "my_rank m = Some r"
    and rc': "rank_card m =
      Inr (int r, \<lfloor>to_double (to_double (of_nat r / of_nat (total_comps m)) * 100)\<rfloor>)"
    by auto
  from rc rc' have sr: "shown_rank = int r"
    and tp: "top_pct = \<lfloor>to_double (to_double (of_nat r / of_nat (total_comps m)) * 100)\<rfloor>"
    by simp_all
  have n: "total_comps m = length (filter (\<lambda>x. year x = latest_yr m) df)"
    by (simp add: m compute_metrics_def Let_def)
  from r rc have pos: "0 < total_comps m"
    by (auto simp: rank_card_def split: if_splits)
  from df n pos r sr tp show ?thesis
    by blast
qed

text \<open>
  The company \<^verbatim>\<open>T28\<close> of \<open>fifty_df\<close>, step by step: the match, the series, the metrics,
  the two roundings and the rank card.
\<close>

lemma fifty_T28_matches:
  "find_matches contains_dot_fragment fifty_df ByCode ''T28'' =
     Inr [\<lparr>stock_code = ''T28'', company_name = Some ''N28'', year = 2021,
            index_score = 72, total_freq = 28\<rparr>]"
  by code_simp

lemma fifty_T28_series:
  "filter_years (2021, 2021) (target_company fifty_df ''T28'') =
     [\<lparr>stock_code = ''T28'', company_name = Some ''N28'', year = 2021,
       index_score = 72, total_freq = 28\<rparr>]"
  by code_simp

lemma fifty_T28_metrics:
  "compute_metrics fifty_df ''T28'' (filter_years (2021, 2021) (target_company fifty_df ''T28'')) =
     \<lparr>latest_idx = 72, latest_yr = 2021, idx_delta = 0, my_rank = Some 29, total_comps = 50\<rparr>"
  by code_simp

lemma fifty_doubles:
  "to_double (29 / 50) = 5224175567749775 / 2 ^ 53"
  "to_double (to_double (29 / 50) * 100) = 8162774324609023 / 2 ^ 47"
  by code_simp+

lemma fifty_rank_card:
  "rank_card \<lparr>latest_idx = 72, latest_yr = 2021, idx_delta = 0, my_rank = Some 29,
      total_comps = 50\<rparr> = Inr (29, 57)"
  by code_simp

text \<open>
  Claim C9. The bucket shown is to be \<open>\<lfloor>r / n * 100\<rfloor>\<close> for the rank \<open>r\<close> among the \<open>n\<close>
  companies of the latest year. The code computes \<^verbatim>\<open>int(my_rank / total_comps * 100)\<close> in
  doubles, and the rounding of the quotient can leave the product just below the whole
  number it should be. In \<open>fifty_df\<close> the company \<^verbatim>\<open>T28\<close> has rank 29 of 50: the quotient
  is the double below 0.58, the product the double below 58, and the bucket shown is 57
  where \<open>\<lfloor>29 / 50 * 100\<rfloor>\<close> is 58.
\<close>

theorem bucket_at_rank_29_of_50:
  "main_body contains_dot_fragment ((Some fifty_df, Some (market_avg fifty_df)), [])
     ByCode ''T28'' (2021, 2021) =
   Inr (Dashboard (Some ''N28'') ''T28''
          \<lparr>latest_idx = 72, latest_yr = 2021, idx_delta = 0, my_rank = Some 29,
           total_comps = 50\<rparr> 29 57) \<and>
   to_double (29 / 50) = 5224175567749775 / 2 ^ 53 \<and>
   to_double (to_double (29 / 50) * 100) = 8162774324609023 / 2 ^ 47 \<and>
   \<lfloor>8162774324609023 / 2 ^ 47 :: rat\<rfloor> = 57 \<and>
   \<lfloor>29 / 50 * 100 :: rat\<rfloor> = 58"
proof -
  have "main_body contains_dot_fragment ((Some fifty_df, Some (market_avg fifty_df)), [])
     ByCode ''T28'' (2021, 2021) =
   Inr (Dashboard (Some ''N28'') ''T28''
          \<lparr>latest_idx = 72, latest_yr = 2021, idx_delta = 0, my_rank = Some 29,
           total_comps = 50\<rparr> 29 57)"
    by (simp add: main_body_def fifty_T28_matches Let_def fifty_T28_metrics fifty_rank_card)
      (simp add: fifty_T28_series)
  moreover have "\<lfloor>8162774324609023 / 2 ^ 47 :: rat\<rfloor> = 57" "\<lfloor>29 / 50 * 100 :: rat\<rfloor> = 58"
    by (simp_all add: floor_rat_numeral)
  ultimately show ?thesis
    using fifty_doubles by blast
qed



section \<open>The year-over-year delta\<close>



lemma py_round2_sixteenth: "py_round2 (1 / 16) = 3 / 50"
  by (simp add: py_round2_def Let_def floor_rat_numeral)








section \<open>Resolving by name\<close>

lemma match_here_prefix:
  "CHR ''.'' \<notin> set p \<Longrightarrow> match_here p s \<longleftrightarrow> prefix p s"
  by (induction p s rule: match_here.induct) auto

lemma re_search_sublist:
  assumes "CHR ''.'' \<notin> set p"
  shows "re_search p s \<longleftrightarrow> sublist p s"
proof (induction s)
  case Nil
  show ?case
    using assms by (simp add: match_here_prefix)
next
  case (Cons x s)
  then show ?case
    using assms by (simp add: match_here_prefix sublist_Cons_right)
qed

lemma contains_dot_fragment_plain:
  assumes "list_all (\<lambda>c. c \<notin> set special_chars) query"
  shows "\<exists>found. contains_dot_fragment query = Some found \<and> (\<forall>n. found n \<longleftrightarrow> sublist query n)"
proof -
  have d: "CHR ''.'' \<notin> set query"
    using assms by (auto simp: list_all_iff special_chars_def)
  have "list_all (\<lambda>c. c = CHR ''.'' \<or> c \<notin> set special_chars) query"
    using assms by (auto simp: list_all_iff)
  then have "contains_dot_fragment query = Some (re_search query)"
    by (simp add: contains_dot_fragment_def)
  with re_search_sublist [OF d] show ?thesis
    by simp
qed

text \<open>
  The gating of the fallback. The rows whose name equals the query, if there are any,
  are the result whatever the fallback test would have said or raised: it is not
  consulted. Only if there is none, the query is handed to \<^verbatim>\<open>str.contains\<close>: an
  ill-formed pattern raises, otherwise the result is the rows whose name is present and
  is found by the pattern search. For a query without special characters the pattern
  search is substring containment.
\<close>

lemma by_name_exact_before_contains:
  fixes df :: dataset and query :: string
  defines "exact \<equiv> filter (\<lambda>r. company_name r = Some query) df"
  shows "(exact \<noteq> [] \<longrightarrow> find_matches contains df ByName query = Inr exact) \<and>
         (exact = [] \<longrightarrow> contains query = None \<longrightarrow>
            find_matches contains df ByName query = Inl ReError) \<and>
         (exact = [] \<longrightarrow> (\<forall>found. contains query = Some found \<longrightarrow>
            find_matches contains df ByName query =
              Inr (filter (\<lambda>r. \<exists>n. company_name r = Some n \<and> found n) df))) \<and>
         (list_all (\<lambda>c. c \<notin> set special_chars) query \<longrightarrow>
            (\<exists>found. contains_dot_fragment query = Some found \<and>
                     (\<forall>n. found n \<longleftrightarrow> sublist query n)))"
proof -
  have p: "(\<lambda>r. case company_name r of None \<Rightarrow> False | Some n \<Rightarrow> found n) =
           (\<lambda>r. \<exists>n. company_name r = Some n \<and> found n)" for found :: "string \<Rightarrow> bool"
    by (auto split: option.splits)
  show ?thesis
    using contains_dot_fragment_plain [of query]
    by (auto simp: find_matches_def exact_def Let_def p)
qed

text \<open>
  On \<open>names_df\<close>: the query \<^verbatim>\<open>abc\<close> has an exact match, which is the result; \<^verbatim>\<open>y\<close> has
  none and is found inside \<^verbatim>\<open>xyz\<close>.
\<close>

lemma by_name_on_names_df:
  "filter (\<lambda>r. company_name r = Some ''abc'') names_df \<noteq> [] \<and>
   find_matches contains_dot_fragment names_df ByName ''abc'' =
     Inr [\<lparr>stock_code = ''T1'', company_name = Some ''abc'', year = 2020,
            index_score = 80, total_freq = 10\<rparr>] \<and>
   filter (\<lambda>r. company_name r = Some ''y'') names_df = [] \<and>
   list_all (\<lambda>c. c \<notin> set special_chars) ''y'' \<and>
   sublist ''y'' ''xyz'' \<and>
   find_matches contains_dot_fragment names_df ByName ''y'' =
     Inr [\<lparr>stock_code = ''T2'', company_name = Some ''xyz'', year = 2020,
            index_score = 90, total_freq = 30\<rparr>]"
  by (simp add: names_df_def find_matches_def contains_dot_fragment_def special_chars_def
      sublist_Cons_right)

lemma names_df_pattern_matches:
  "find_matches contains_dot_fragment names_df ByName ''a.c'' =
     Inr [\<lparr>stock_code = ''T1'', company_name = Some ''abc'', year = 2020,
            index_score = 80, total_freq = 10\<rparr>]"
  "find_matches contains_dot_fragment names_df ByName ''*ST'' = Inl ReError"
  by (simp_all add: names_df_def find_matches_def contains_dot_fragment_def special_chars_def)

lemma names_df_pattern_screens:
  "main_body contains_dot_fragment ((Some names_df, Some (market_avg names_df)), [])
     ByName ''a.c'' (2020, 2020) =
   Inr (Dashboard (Some ''abc'') ''T1''
          \<lparr>latest_idx = 80, latest_yr = 2020, idx_delta = 0, my_rank = Some 2,
           total_comps = 2\<rparr> 2 100)"
  "main_body contains_dot_fragment ((Some names_df, Some (market_avg names_df)), [])
     ByName ''*ST'' (2020, 2020) = Inl ReError"
  by code_simp+

text \<open>
  Claim C2. In a search by name the resolver is to take the rows whose name equals the
  query and, only when there is none, the rows whose name contains the query as a
  substring. The code gates the fallback as claimed, but its fallback is not substring
  containment: line 148 searches for the keyword with \<^verbatim>\<open>str.contains\<close> and leaves
  \<^verbatim>\<open>regex\<close> at its default, so the query is read as a pattern. On \<open>names_df\<close> no name
  equals or contains \<^verbatim>\<open>a.c\<close>, yet the company named \<^verbatim>\<open>abc\<close> is found and its dashboard
  shown; and the query \<^verbatim>\<open>*ST\<close>, which no name equals or contains either, makes the
  search raise \<^verbatim>\<open>re.error\<close> where no company should have been found.
\<close>

theorem pattern_fallback_at_failing_input:
  "filter (\<lambda>r. company_name r = Some ''a.c'') names_df = [] \<and>
   \<not> sublist ''a.c'' ''abc'' \<and>
   \<not> sublist ''a.c'' ''xyz'' \<and>
   find_matches contains_dot_fragment names_df ByName ''a.c'' =
     Inr [\<lparr>stock_code = ''T1'', company_name = Some ''abc'', year = 2020,
            index_score = 80, total_freq = 10\<rparr>] \<and>
   main_body contains_dot_fragment ((Some names_df, Some (market_avg names_df)), [])
     ByName ''a.c'' (2020, 2020) =
   Inr (Dashboard (Some ''abc'') ''T1''
          \<lparr>latest_idx = 80, latest_yr = 2020, idx_delta = 0, my_rank = Some 2,
           total_comps = 2\<rparr> 2 100) \<and>
   filter (\<lambda>r. company_name r = Some ''*ST'') names_df = [] \<and>
   \<not> sublist ''*ST'' ''abc'' \<and>
   \<not> sublist ''*ST'' ''xyz'' \<and>
   find_matches contains_dot_fragment names_df ByName ''*ST'' = Inl ReError \<and>
   main_body contains_dot_fragment ((Some names_df, Some (market_avg names_df)), [])
     ByName ''*ST'' (2020, 2020) = Inl ReError"
  by (simp add: names_df_pattern_matches names_df_pattern_screens sublist_Cons_right)
    (simp add: names_df_def)

section \<open>The resolved company\<close>

lemma hd_filter_first:
  "filter P xs \<noteq> [] \<Longrightarrow>
     \<exists>pre post. xs = pre @ hd (filter P xs) # post \<and> (\<forall>r\<in>set pre. \<not> P r)"
proof (induction xs)
  case Nil
  then show ?case by simp
next
  case (Cons x xs)
  show ?case
  proof (cases "P x")
    case True
    then have "x # xs = [] @ hd (filter P (x # xs)) # xs \<and> (\<forall>r\<in>set []. \<not> P r)"
      by simp
    then show ?thesis by blast
  next
    case False
    with Cons obtain pre post where "xs = pre @ hd (filter P xs) # post" "\<forall>r\<in>set pre. \<not> P r"
      by auto
    with False have "x # xs = (x # pre) @ hd (filter P (x # xs)) # post \<and> (\<forall>r\<in>set (x # pre). \<not> P r)"
      by simp
    then show ?thesis by blast
  qed
qed

lemma find_matches_filter:
  "find_matches contains df mode query = Inr matches \<Longrightarrow> \<exists>P. matches = filter P df"
  by (auto simp: find_matches_def Let_def split: if_splits option.splits)

lemma main_body_dashboard:
  assumes "find_matches contains df mode query = Inr (first_row # rest)"
    and "query \<noteq> []"
    and "filter_years sel (target_company df (stock_code first_row)) \<noteq> []"
  shows "\<exists>k p. main_body contains ((Some df, ma), shown) mode query sel =
           Inr (Dashboard
                  (company_name (last (filter_years sel (target_company df (stock_code first_row)))))
                  (stock_code first_row)
                  (compute_metrics df (stock_code first_row)
                     (filter_years sel (target_company df (stock_code first_row))))
                  k p)"
proof -
  from rank_card_filtered [OF refl assms(3)] obtain k p where
    "rank_card (compute_metrics df (stock_code first_row)
       (filter_years sel (target_company df (stock_code first_row)))) = Inr (k, p)"
    by blast
  with assms show ?thesis
    by (simp add: main_body_def Let_def)
qed

lemma renamed_matches:
  "find_matches contains_dot_fragment renamed_df ByName ''Alpha'' =
     Inr [\<lparr>stock_code = ''T1'', company_name = Some ''Alpha'', year = 2020,
            index_score = 80, total_freq = 10\<rparr>,
          \<lparr>stock_code = ''T3'', company_name = Some ''Alpha'', year = 2021,
            index_score = 70, total_freq = 5\<rparr>]"
  by (simp add: find_matches_def renamed_df_def)

lemma renamed_T1_series:
  "target_company renamed_df ''T1'' =
     [\<lparr>stock_code = ''T1'', company_name = Some ''Alpha'', year = 2020,
       index_score = 80, total_freq = 10\<rparr>,
      \<lparr>stock_code = ''T1'', company_name = Some ''Alpha New'', year = 2021,
       index_score = 85, total_freq = 20\<rparr>]"
  by (simp add: target_company_def renamed_df_def)

lemma renamed_T1_dashboard:
  "main_body contains_dot_fragment ((Some renamed_df, Some (market_avg renamed_df)), [])
     ByName ''Alpha'' (2020, 2021) =
   Inr (Dashboard (Some ''Alpha New'') ''T1''
          \<lparr>latest_idx = 85, latest_yr = 2021, idx_delta = 5, my_rank = Some 2,
           total_comps = 3\<rparr> 2 66)"
proof -
  have m: "compute_metrics renamed_df ''T1''
      [\<lparr>stock_code = ''T1'', company_name = Some ''Alpha'', year = 2020,
       index_score = 80, total_freq = 10\<rparr>,
      \<lparr>stock_code = ''T1'', company_name = Some ''Alpha New'', year = 2021,
       index_score = 85, total_freq = 20\<rparr>] =
     \<lparr>latest_idx = 85, latest_yr = 2021, idx_delta = 5, my_rank = Some 2, total_comps = 3\<rparr>"
    by (simp add: compute_metrics_def Let_def renamed_df_def rank_series_def rank_min_desc_def
        py_round2_def)
  have rc: "rank_card \<lparr>latest_idx = 85, latest_yr = 2021, idx_delta = 5, my_rank = Some 2,
           total_comps = 3\<rparr> = Inr (2, 66)"
    by code_simp
  show ?thesis
    by (simp add: main_body_def renamed_matches Let_def renamed_T1_series filter_years_def m rc)
qed

text \<open>
  Claim C6. When the query matches at least one row, the code chosen is the one of the
  first matching row in table order (no row before it matches), and the company's
  series consists of all rows of the whole table with that code, each as often as it
  occurs there and whether or not its own text matched, in ascending order of year.
  This is the series \<^verbatim>\<open>main\<close> filters by year and computes the dashboard from.
\<close>

theorem resolver_first_match_whole_history:
  assumes "find_matches contains df mode query = Inr matches" and "matches \<noteq> []"
  defines "code \<equiv> stock_code (hd matches)"
  shows "(\<exists>pre post. df = pre @ hd matches # post \<and> (\<forall>r\<in>set pre. r \<notin> set matches)) \<and>
         mset (target_company df code) = mset (filter (\<lambda>r. stock_code r = code) df) \<and>
         set (target_company df code) = {r \<in> set df. stock_code r = code} \<and>
         sorted (map year (target_company df code)) \<and>
         (query \<noteq> [] \<longrightarrow> filter_years sel (target_company df code) \<noteq> [] \<longrightarrow>
            (\<exists>k p. main_body contains ((Some df, ma), shown) mode query sel =
               Inr (Dashboard (company_name (last (filter_years sel (target_company df code))))
                      code
                      (compute_metrics df code (filter_years sel (target_company df code)))
                      k p)))"
proof -
  from find_matches_filter [OF assms(1)] obtain P where P: "matches = filter P df"
    by blast
  from hd_filter_first [of P df] assms(2) P obtain pre post where
    "df = pre @ hd matches # post" "\<forall>r\<in>set pre. \<not> P r"
    by auto
  then have first: "\<exists>pre post. df = pre @ hd matches # post \<and> (\<forall>r\<in>set pre. r \<notin> set matches)"
    unfolding P by auto
  have m: "mset (target_company df code) = mset (filter (\<lambda>r. stock_code r = code) df)"
    by (simp add: target_company_def)
  have s: "sorted (map year (target_company df code))"
    by (simp add: target_company_def)
  from assms(2) obtain first_row rest where c: "matches = first_row # rest"
    by (cases matches) auto
  have d: "\<exists>k p. main_body contains ((Some df, ma), shown) mode query sel =
               Inr (Dashboard (company_name (last (filter_years sel (target_company df code))))
                      code
                      (compute_metrics df code (filter_years sel (target_company df code)))
                      k p)"
    if "query \<noteq> []" "filter_years sel (target_company df code) \<noteq> []"
    using main_body_dashboard [of contains df mode query first_row rest sel ma shown] that assms(1)
    unfolding code_def c by simp
  from first m s d show ?thesis
    by simp
qed

text \<open>
  Claim C6 on \<open>renamed_df\<close>: the query \<^verbatim>\<open>Alpha\<close> matches a row of \<^verbatim>\<open>T1\<close> and then a row
  of \<^verbatim>\<open>T3\<close>; \<^verbatim>\<open>T1\<close> is chosen, and its series holds the row of 2021 as well, whose name
  \<^verbatim>\<open>Alpha New\<close> did not match, after the row of 2020.
\<close>

theorem resolver_first_match_whole_history_witness:
  "find_matches contains_dot_fragment renamed_df ByName ''Alpha'' =
     Inr [\<lparr>stock_code = ''T1'', company_name = Some ''Alpha'', year = 2020,
            index_score = 80, total_freq = 10\<rparr>,
          \<lparr>stock_code = ''T3'', company_name = Some ''Alpha'', year = 2021,
            index_score = 70, total_freq = 5\<rparr>] \<and>
   target_company renamed_df ''T1'' =
     [\<lparr>stock_code = ''T1'', company_name = Some ''Alpha'', year = 2020,
       index_score = 80, total_freq = 10\<rparr>,
      \<lparr>stock_code = ''T1'', company_name = Some ''Alpha New'', year = 2021,
       index_score = 85, total_freq = 20\<rparr>] \<and>
   filter_years (2020, 2021) (target_company renamed_df ''T1'') \<noteq> [] \<and>
   main_body contains_dot_fragment ((Some renamed_df, Some (market_avg renamed_df)), [])
     ByName ''Alpha'' (2020, 2021) =
   Inr (Dashboard (Some ''Alpha New'') ''T1''
          \<lparr>latest_idx = 85, latest_yr = 2021, idx_delta = 5, my_rank = Some 2,
           total_comps = 3\<rparr> 2 66)"
proof -
  have ne: "[\<lparr>stock_code = ''T1'', company_name = Some ''Alpha'', year = 2020,
            index_score = 80, total_freq = 10\<rparr>,
          \<lparr>stock_code = ''T3'', company_name = Some ''Alpha'', year = 2021,
            index_score = 70, total_freq = 5\<rparr>] \<noteq> ([] :: dataset)"
    by simp
  have f: "filter_years (2020, 2021) (target_company renamed_df ''T1'') \<noteq> []"
    by (simp add: renamed_T1_series filter_years_def)
  note t = resolver_first_match_whole_history [OF renamed_matches ne,
      of "(2020, 2021)" "Some (market_avg renamed_df)" "[]"]
  from renamed_matches renamed_T1_series f renamed_T1_dashboard t show ?thesis
    by blast
qed

end
